theory Spec2Isabelle
  imports Complex_Main "HOL-Library.Multiset"
begin

section \<open>Numbers and data of the analyzer\<close>

text \<open>
  The analyzer is JavaScript; every quantity is a number. The embedding reads numbers as
  \<^typ>\<open>real\<close>: \<open>Math.sqrt\<close> is \<^const>\<open>sqrt\<close>, \<open>Math.exp\<close> is \<^const>\<open>exp\<close>,
  \<open>Math.pow(a, 2)\<close> is \<open>a\<^sup>2\<close>, \<open>Math.floor\<close> and \<open>Math.ceil\<close> are \<^const>\<open>floor\<close> and
  \<^const>\<open>ceiling\<close>. Rounding, infinities and NaN of IEEE doubles are outside this model.

  A mover is the object the data loader builds: identity, jersey number, role tag, position
  and velocity. The code reads the velocity as \<open>player.vx || 0\<close>; on a number that is the
  identity (\<open>0 || 0\<close> is \<open>0\<close>), and a mover without velocity fields is the one with both at
  \<open>0\<close>.
\<close>

record point =
  x :: real
  y :: real

record player = point +
  pid :: int
  jerseyNum :: int
  position :: string
  vx :: real
  vy :: real

text \<open>
  The ball and an interception point are objects read through \<open>.x\<close> and \<open>.y\<close> only (the
  ball's height \<open>z\<close> is never read): a \<^typ>\<open>point\<close>. A mover passed where a ball is
  expected is read the same way, hence the record scheme in the signatures.

  A snapshot (\<open>gameState\<close>) holds both sides, the ball and the attack direction.
\<close>

record game_state =
  teamPlayers :: "player list"
  opponentPlayers :: "player list"
  ball :: point
  attackingRight :: bool

text \<open>
  Two things leave the model and are results of their own: a \<open>TypeError\<close> that the code
  raises when it reads a property of \<open>undefined\<close>, and a value that is no finite number
  (\<open>undefined\<close> read from a missing grid cell, or a division by a zero resolution), which
  JavaScript carries on as NaN or an infinity.
\<close>

datatype js_fault = TypeError | NonFinite

definition bind_fault :: "js_fault + 'a \<Rightarrow> ('a \<Rightarrow> js_fault + 'b) \<Rightarrow> js_fault + 'b" where
  "bind_fault m f = (case m of Inl e \<Rightarrow> Inl e | Inr v \<Rightarrow> f v)"

text \<open>\<open>a || d\<close> on numbers: the default is taken when \<open>a\<close> is \<open>0\<close>.\<close>

definition js_or :: "real \<Rightarrow> real \<Rightarrow> real" where
  "js_or a d = (if a = 0 then d else a)"

section \<open>pitchControl.js\<close>

definition PLAYER_MAX_SPEED :: real where
  "PLAYER_MAX_SPEED = 5.5"

definition PLAYER_ACCELERATION :: real where
  "PLAYER_ACCELERATION = 3.5"

definition REACTION_TIME :: real where
  "REACTION_TIME = 0.7"

definition BALL_SPEED :: real where
  "BALL_SPEED = 15"

definition POSITION_SPEED_FACTORS :: "(string \<times> real) list" where
  "POSITION_SPEED_FACTORS =
    [(''GK'', 0.85), (''CB'', 0.90), (''LCB'', 0.90), (''RCB'', 0.90),
     (''LB'', 0.95), (''RB'', 0.95), (''CM'', 0.92), (''CDM'', 0.90),
     (''CAM'', 0.93), (''AM'', 0.93), (''LM'', 0.98), (''RM'', 0.98),
     (''LW'', 1.0), (''RW'', 1.0), (''CF'', 0.95), (''ST'', 0.95)]"

text \<open>\<open>POSITION_SPEED_FACTORS[player.position] || 0.95\<close>; a role tag that is not a key
  reads \<open>undefined\<close>, which takes the default.\<close>

definition speedFactorOf :: "string \<Rightarrow> real" where
  "speedFactorOf pos =
    (case map_of POSITION_SPEED_FACTORS pos of
       None \<Rightarrow> 0.95
     | Some f \<Rightarrow> js_or f 0.95)"

definition timeToIntercept :: "player \<Rightarrow> real \<Rightarrow> real \<Rightarrow> real" where
  "timeToIntercept p targetX targetY =
    (let dx = targetX - x p;
         dy = targetY - y p;
         distance = sqrt (dx * dx + dy * dy)
     in if distance < 0.5 then 0
        else
          let speedFactor = speedFactorOf (position p);
              maxSpeed = PLAYER_MAX_SPEED * speedFactor;
              pvx = js_or (vx p) 0;
              pvy = js_or (vy p) 0;
              dirX = dx / distance;
              dirY = dy / distance;
              velocityTowardsTarget = pvx * dirX + pvy * dirY;
              speedDiff = maxSpeed - max 0 velocityTowardsTarget;
              accelTime = speedDiff / PLAYER_ACCELERATION;
              accelDistance = velocityTowardsTarget * accelTime +
                0.5 * PLAYER_ACCELERATION * accelTime * accelTime;
              remainingDistance = max 0 (distance - accelDistance);
              constantSpeedTime = remainingDistance / maxSpeed
          in REACTION_TIME + accelTime + constantSpeedTime)"

definition ballTravelTime :: "'a point_scheme \<Rightarrow> real \<Rightarrow> real \<Rightarrow> real" where
  "ballTravelTime b targetX targetY =
    (let distance = sqrt ((targetX - x b)\<^sup>2 + (targetY - y b)\<^sup>2)
     in distance / BALL_SPEED)"

text \<open>One step of the \<open>forEach\<close> that accumulates a side's influence.\<close>

definition influenceStep :: "real \<Rightarrow> real \<Rightarrow> real \<Rightarrow> real \<Rightarrow> player \<Rightarrow> real" where
  "influenceStep ballTime px py acc p =
    (let tti = timeToIntercept p px py;
         timeAdvantage = ballTime - tti;
         influence = 1 / (1 + exp (- 4 * timeAdvantage))
     in acc + influence)"

definition pitchControlAtPoint ::
  "real \<Rightarrow> real \<Rightarrow> player list \<Rightarrow> player list \<Rightarrow> 'a point_scheme \<Rightarrow> real" where
  "pitchControlAtPoint px py team opponents b =
    (let ballTime = ballTravelTime b px py;
         teamInfluence = foldl (influenceStep ballTime px py) 0 team;
         opponentInfluence = foldl (influenceStep ballTime px py) 0 opponents;
         totalInfluence = teamInfluence + opponentInfluence
     in if totalInfluence = 0 then 0.5
        else teamInfluence / totalInfluence)"

text \<open>
  A surface is the object \<open>generatePitchControlSurface\<close> returns. \<open>options\<close> carries the
  pitch size and the cell size; \<open>{}\<close> gives the defaults.
\<close>

record surface =
  grid :: "real list list"
  gridWidth :: int
  gridHeight :: int
  resolution :: real
  pitchLength :: real
  pitchWidth :: real

record grid_options =
  optPitchLength :: real
  optPitchWidth :: real
  optResolution :: real

definition default_options :: grid_options where
  "default_options = \<lparr>optPitchLength = 105, optPitchWidth = 68, optResolution = 2\<rparr>"

text \<open>Centre of cell \<open>i\<close> along an axis of the given extent.\<close>

definition cellCentre :: "nat \<Rightarrow> real \<Rightarrow> real \<Rightarrow> real" where
  "cellCentre i res extent = (real i * res) - (extent / 2) + (res / 2)"

text \<open>
  The two \<open>for\<close> loops run over \<open>0 \<le> yi < gridHeight\<close> and \<open>0 \<le> xi < gridWidth\<close>. With a
  zero resolution the dimensions are not finite numbers.
\<close>

definition generatePitchControlSurface ::
  "player list \<Rightarrow> player list \<Rightarrow> 'a point_scheme \<Rightarrow> grid_options \<Rightarrow> js_fault + surface" where
  "generatePitchControlSurface team opponents b options =
    (let pLength = optPitchLength options;
         pWidth = optPitchWidth options;
         res = optResolution options
     in if res = 0 then Inl NonFinite
        else
          let gWidth = \<lceil>pLength / res\<rceil>;
              gHeight = \<lceil>pWidth / res\<rceil>;
              rows = map (\<lambda>yi.
                       map (\<lambda>xi. pitchControlAtPoint (cellCentre xi res pLength)
                                    (cellCentre yi res pWidth) team opponents b)
                         [0 ..< nat gWidth])
                     [0 ..< nat gHeight]
          in Inr \<lparr>grid = rows, gridWidth = gWidth, gridHeight = gHeight,
                  resolution = res, pitchLength = pLength, pitchWidth = pWidth\<rparr>)"

text \<open>
  \<open>grid[yi][xi]\<close> after the bounds check. The check reads \<open>grid[0].length\<close> last, which
  raises on an empty grid; a row shorter than row \<open>0\<close> yields \<open>undefined\<close>. With a zero
  resolution the indices are no finite numbers.
\<close>

definition cellLookup :: "'a surface_scheme \<Rightarrow> real \<Rightarrow> real \<Rightarrow> real \<Rightarrow> js_fault + real" where
  "cellLookup s px py neutral =
    (if resolution s = 0 then Inl NonFinite
     else
       let xi = \<lfloor>(px + pitchLength s / 2) / resolution s\<rfloor>;
           yi = \<lfloor>(py + pitchWidth s / 2) / resolution s\<rfloor>
       in if yi < 0 \<or> yi \<ge> int (length (grid s)) \<or> xi < 0 then Inr neutral
          else (case grid s of
                  [] \<Rightarrow> Inl TypeError
                | row0 # _ \<Rightarrow>
                    if xi \<ge> int (length row0) then Inr neutral
                    else if nat xi < length (grid s ! nat yi)
                         then Inr (grid s ! nat yi ! nat xi)
                         else Inl NonFinite))"

definition getPitchControlAt :: "surface \<Rightarrow> real \<Rightarrow> real \<Rightarrow> js_fault + real" where
  "getPitchControlAt s px py = cellLookup s px py 0.5"

text \<open>
  \<open>calculateInterceptionProbability\<close>: the \<open>forEach\<close> keeps the largest interception
  probability among the opponents whose projection falls inside the pass.
\<close>

definition interceptStep :: "'a point_scheme \<Rightarrow> real \<Rightarrow> real \<Rightarrow> real \<Rightarrow> real \<Rightarrow> player \<Rightarrow> real" where
  "interceptStep passer passDistance dirX dirY maxInterceptionProb opponent =
    (let toOpponentX = x opponent - x passer;
         toOpponentY = y opponent - y passer;
         projDist = toOpponentX * dirX + toOpponentY * dirY
     in if projDist > 0 \<and> projDist < passDistance then
          let perpDist = \<bar>toOpponentX * (- dirY) + toOpponentY * dirX\<bar>;
              ballTimeToPoint = projDist / BALL_SPEED;
              timeToLine = timeToIntercept opponent
                (x passer + projDist * dirX) (y passer + projDist * dirY);
              timeDiff = ballTimeToPoint - timeToLine;
              prob = 1 / (1 + exp (- 5 * timeDiff));
              distanceFactor = exp (- perpDist / 3);
              interceptProb = prob * distanceFactor
          in max maxInterceptionProb interceptProb
        else maxInterceptionProb)"

definition calculateInterceptionProbability ::
  "'a point_scheme \<Rightarrow> 'b point_scheme \<Rightarrow> player list \<Rightarrow> real" where
  "calculateInterceptionProbability passer receiver opponents =
    (let passDistance = sqrt ((x receiver - x passer)\<^sup>2 + (y receiver - y passer)\<^sup>2);
         dirX = (x receiver - x passer) / passDistance;
         dirY = (y receiver - y passer) / passDistance;
         maxInterceptionProb =
           foldl (interceptStep passer passDistance dirX dirY) 0 opponents;
         distanceRisk = 1 - exp (- passDistance / 40)
     in min 0.95 (maxInterceptionProb + distanceRisk * 0.1))"

section \<open>epvModel.js\<close>

definition progressionValue :: "real \<Rightarrow> real \<Rightarrow> bool \<Rightarrow> real" where
  "progressionValue px py attRight =
    (let pLength = 105;
         pWidth = 68;
         attackingX = (if attRight then px else - px);
         normalizedX = (attackingX + pLength / 2) / pLength;
         progressionFactor =
           (if normalizedX < 0.15 then 0.05 + normalizedX * 0.3
            else if normalizedX < 0.33 then 0.1 + (normalizedX - 0.15) * 0.5
            else if normalizedX < 0.50 then 0.2 + (normalizedX - 0.33) * 1.2
            else if normalizedX < 0.66 then 0.4 + (normalizedX - 0.50) * 1.5
            else if normalizedX < 0.85 then 0.65 + (normalizedX - 0.66) * 1.2
            else 0.9 + (normalizedX - 0.85) * 0.6);
         normalizedY = \<bar>py\<bar> / (pWidth / 2);
         centralBonus = 1 - 0.25 * normalizedY
     in min 1 (progressionFactor * centralBonus))"

text \<open>
  \<open>calculateEPV(x, y, gameState, pitchControlSurface = null)\<close>: the control is looked up in
  the surface when one is supplied and computed otherwise.
\<close>

definition calculateEPV ::
  "real \<Rightarrow> real \<Rightarrow> game_state \<Rightarrow> surface option \<Rightarrow> js_fault + real" where
  "calculateEPV px py gs pitchControlSurface =
    (let progression = progressionValue px py (attackingRight gs)
     in bind_fault
          (case pitchControlSurface of
             Some s \<Rightarrow> getPitchControlAt s px py
           | None \<Rightarrow> Inr (pitchControlAtPoint px py (teamPlayers gs) (opponentPlayers gs) (ball gs)))
          (\<lambda>control.
             let controlContribution = (control - 0.5) * 2;
                 epv = progression * controlContribution
             in Inr (max (- 1) (min 1 epv))))"

record epv_surface = surface +
  maxEPV :: real
  minEPV :: real
  pitchControlSurface :: surface

text \<open>
  \<open>generateEPVSurface\<close> builds the control surface with the same options and reads its
  cells by the loop indices, which are in range by construction. \<open>maxEPV\<close> and \<open>minEPV\<close>
  are the running extrema, started at \<open>-1\<close> and \<open>1\<close>.
\<close>

definition generateEPVSurface :: "game_state \<Rightarrow> grid_options \<Rightarrow> js_fault + epv_surface" where
  "generateEPVSurface gs options =
    (let pLength = optPitchLength options;
         pWidth = optPitchWidth options;
         res = optResolution options
     in bind_fault
          (generatePitchControlSurface (teamPlayers gs) (opponentPlayers gs) (ball gs)
             \<lparr>optPitchLength = pLength, optPitchWidth = pWidth, optResolution = res\<rparr>)
          (\<lambda>pcs.
             let gWidth = \<lceil>pLength / res\<rceil>;
                 gHeight = \<lceil>pWidth / res\<rceil>;
                 rows = map (\<lambda>yi.
                          map (\<lambda>xi.
                                 let cx = cellCentre xi res pLength;
                                     cy = cellCentre yi res pWidth;
                                     control = grid pcs ! yi ! xi;
                                     progression = progressionValue cx cy (attackingRight gs);
                                     controlContribution = (control - 0.5) * 2
                                 in progression * controlContribution)
                            [0 ..< nat gWidth])
                        [0 ..< nat gHeight]
             in Inr \<lparr>grid = rows, gridWidth = gWidth, gridHeight = gHeight,
                     resolution = res, pitchLength = pLength, pitchWidth = pWidth,
                     maxEPV = foldl max (- 1) (concat rows),
                     minEPV = foldl min 1 (concat rows),
                     pitchControlSurface = pcs\<rparr>))"

definition getEPVAt :: "epv_surface \<Rightarrow> real \<Rightarrow> real \<Rightarrow> js_fault + real" where
  "getEPVAt s px py = cellLookup s px py 0"

section \<open>passEvaluator.js\<close>

text \<open>\<open>a < b\<close> where \<open>b\<close> starts as \<open>Infinity\<close> (\<open>None\<close>) and later holds a number.\<close>

definition below :: "real \<Rightarrow> real option \<Rightarrow> bool" where
  "below a b = (case b of None \<Rightarrow> True | Some b' \<Rightarrow> a < b')"

record turnover_info =
  tiTurnoverEPV :: real
  tiInterceptionPoint :: point
  tiInterceptor :: "player option"

text \<open>
  The scan of \<open>calculateTurnoverEPV\<close> keeps \<open>(bestInterceptor, bestInterceptTime,
  interceptionPoint)\<close>; the fallback scan keeps \<open>(minDist, bestInterceptor)\<close>.
\<close>

definition turnoverStep ::
  "'a point_scheme \<Rightarrow> real \<Rightarrow> real \<Rightarrow> real \<Rightarrow> player option \<times> real option \<times> point
    \<Rightarrow> player \<Rightarrow> player option \<times> real option \<times> point" where
  "turnoverStep passer passDistance dirX dirY st opponent =
    (let toOppX = x opponent - x passer;
         toOppY = y opponent - y passer;
         projDist = toOppX * dirX + toOppY * dirY
     in if projDist > 0 \<and> projDist < passDistance then
          let interceptX = x passer + projDist * dirX;
              interceptY = y passer + projDist * dirY;
              ballTime = projDist / BALL_SPEED;
              oppTime = timeToIntercept opponent interceptX interceptY
          in if oppTime < ballTime + 0.3 \<and> below oppTime (fst (snd st))
             then (Some opponent, Some oppTime, \<lparr>x = interceptX, y = interceptY\<rparr>)
             else st
        else st)"

definition closestStep ::
  "'a point_scheme \<Rightarrow> real option \<times> player option \<Rightarrow> player \<Rightarrow> real option \<times> player option" where
  "closestStep receiver st opp =
    (let dist = sqrt ((x opp - x receiver)\<^sup>2 + (y opp - y receiver)\<^sup>2)
     in if below dist (fst st) then (Some dist, Some opp) else st)"

definition calculateTurnoverEPV ::
  "'a point_scheme \<Rightarrow> 'b point_scheme \<Rightarrow> player list \<Rightarrow> game_state \<Rightarrow> js_fault + turnover_info" where
  "calculateTurnoverEPV passer receiver opponents gs =
    (let passDistance = sqrt ((x receiver - x passer)\<^sup>2 + (y receiver - y passer)\<^sup>2);
         dirX = (x receiver - x passer) / passDistance;
         dirY = (y receiver - y passer) / passDistance;
         scan = foldl (turnoverStep passer passDistance dirX dirY)
                  (None, None, \<lparr>x = x receiver, y = y receiver\<rparr>) opponents;
         found = (case fst scan of
                    Some i \<Rightarrow> (Some i, snd (snd scan))
                  | None \<Rightarrow> (snd (foldl (closestStep receiver) (None, None) opponents),
                             \<lparr>x = x receiver, y = y receiver\<rparr>));
         bestInterceptor = fst found;
         iPoint = snd found;
         flippedGameState = \<lparr>teamPlayers = opponentPlayers gs, opponentPlayers = teamPlayers gs,
                              ball = iPoint, attackingRight = \<not> attackingRight gs\<rparr>
     in bind_fault (calculateEPV (x iPoint) (y iPoint) flippedGameState None)
          (\<lambda>opponentEPV.
             Inr \<lparr>tiTurnoverEPV = - opponentEPV, tiInterceptionPoint = iPoint,
                  tiInterceptor = bestInterceptor\<rparr>))"

record pass_evaluation =
  receiver :: player
  receiverEPV :: real
  rawReceiverEPV :: real
  turnoverEPV :: real
  directionFactor :: real
  successProbability :: real
  interceptProbability :: real
  expectedValue :: real
  passDistance :: real
  passTime :: real
  passDirection :: string
  interceptionPoint :: point
  riskRewardDiff :: real

definition evaluatePass ::
  "player \<Rightarrow> player \<Rightarrow> game_state \<Rightarrow> epv_surface option \<Rightarrow> js_fault + pass_evaluation" where
  "evaluatePass passer rcv gs epvSurface =
    (let interceptProb = calculateInterceptionProbability passer rcv (opponentPlayers gs);
         successProb = 1 - interceptProb;
         pDistance = sqrt ((x rcv - x passer)\<^sup>2 + (y rcv - y passer)\<^sup>2);
         pTime = pDistance / BALL_SPEED;
         postPassGameState = gs\<lparr>ball := \<lparr>x = x rcv, y = y rcv\<rparr>\<rparr>
     in bind_fault
          (case epvSurface of
             Some s \<Rightarrow> getEPVAt s (x rcv) (y rcv)
           | None \<Rightarrow> calculateEPV (x rcv) (y rcv) postPassGameState None)
          (\<lambda>rEPV.
             let passDeltaX = x rcv - x passer;
                 pDirection = (if attackingRight gs then passDeltaX else - passDeltaX);
                 dFactor =
                   (if pDirection > 10 then 1.3 + min 0.2 (pDirection / 50)
                    else if pDirection > 0 then 1.0 + pDirection / 50
                    else if pDirection > - 10 then 1.0 + pDirection / 30
                    else max 0.3 (0.7 + pDirection / 50));
                 adjustedReceiverEPV = rEPV * dFactor
             in bind_fault (calculateTurnoverEPV passer rcv (opponentPlayers gs) gs)
                  (\<lambda>turnoverInfo.
                     let tEPV = tiTurnoverEPV turnoverInfo;
                         eValue = successProb * adjustedReceiverEPV + interceptProb * tEPV
                     in Inr \<lparr>receiver = rcv,
                             receiverEPV = adjustedReceiverEPV,
                             rawReceiverEPV = rEPV,
                             turnoverEPV = tEPV,
                             directionFactor = dFactor,
                             successProbability = successProb,
                             interceptProbability = interceptProb,
                             expectedValue = eValue,
                             passDistance = pDistance,
                             passTime = pTime,
                             passDirection =
                               (if pDirection > 0 then ''forward''
                                else if pDirection < - 10 then ''backward'' else ''lateral''),
                             interceptionPoint = tiInterceptionPoint turnoverInfo,
                             riskRewardDiff = adjustedReceiverEPV - \<bar>tEPV\<bar>\<rparr>)))"

text \<open>
  A pass option spreads the evaluation and adds the target and the value added. The display
  label \<open>targetName\<close> is left out.
\<close>

record pass_option =
  target :: player
  targetPosition :: string
  evaluation :: pass_evaluation
  currentEPV :: real
  epvAdded :: real
  riskLevel :: string

fun collect :: "(js_fault + 'a) list \<Rightarrow> js_fault + 'a list" where
  "collect [] = Inr []"
| "collect (r # rs) =
     (case r of
        Inl e \<Rightarrow> Inl e
      | Inr v \<Rightarrow> (case collect rs of Inl e \<Rightarrow> Inl e | Inr vs \<Rightarrow> Inr (v # vs)))"

definition passOptionOf ::
  "player \<Rightarrow> game_state \<Rightarrow> epv_surface \<Rightarrow> real \<Rightarrow> player \<Rightarrow> js_fault + pass_option" where
  "passOptionOf ballCarrier gs epvSurface cEPV teammate =
    bind_fault (evaluatePass ballCarrier teammate gs (Some epvSurface))
      (\<lambda>ev.
         Inr \<lparr>target = teammate,
              targetPosition = position teammate,
              evaluation = ev,
              currentEPV = cEPV,
              epvAdded = expectedValue ev - cEPV,
              riskLevel =
                (if interceptProbability ev > 0.5 then ''high''
                 else if interceptProbability ev > 0.25 then ''medium'' else ''low'')\<rparr>)"

text \<open>
  \<open>passOptions.sort((a, b) => b.epvAdded - a.epvAdded)\<close>: a stable sort, highest value
  added first.
\<close>

definition findPassOptions ::
  "player option \<Rightarrow> player list \<Rightarrow> game_state \<Rightarrow> js_fault + pass_option list" where
  "findPassOptions ballCarrier teammates gs =
    (case ballCarrier of
       None \<Rightarrow> Inr []
     | Some bc \<Rightarrow>
         if teammates = [] then Inr []
         else
           bind_fault (calculateEPV (x bc) (y bc) gs None)
             (\<lambda>cEPV.
                bind_fault (generateEPVSurface gs default_options)
                  (\<lambda>epvSurface.
                     bind_fault (collect (map (passOptionOf bc gs epvSurface cEPV) teammates))
                       (\<lambda>passOptions. Inr (sort_key (\<lambda>opt. - epvAdded opt) passOptions)))))"

section \<open>ballDriveModel.js: pressure on the carrier\<close>

definition PRESSURE_RADIUS :: real where
  "PRESSURE_RADIUS = 3"

definition HIGH_PRESSURE_RADIUS :: real where
  "HIGH_PRESSURE_RADIUS = 1.5"

record pressure =
  pressureScore :: real
  closestOpponentDistance :: "real option"
  closestOpponent :: "player option"
  opponentsNearby :: nat
  underHighPressure :: bool

text \<open>The \<open>forEach\<close> keeps \<open>(closestDist, closestOpponent, opponentsInRadius,
  opponentsInHighPressure)\<close>; \<open>closestDist\<close> starts as \<open>Infinity\<close> (\<open>None\<close>), below which no
  threshold of the score lies.\<close>

definition pressureStep ::
  "'a point_scheme \<Rightarrow> real option \<times> player option \<times> nat \<times> nat \<Rightarrow> player
    \<Rightarrow> real option \<times> player option \<times> nat \<times> nat" where
  "pressureStep ballCarrier st opp =
    (case st of (closestDist, closest, inRadius, inHigh) \<Rightarrow>
       let dist = sqrt ((x opp - x ballCarrier)\<^sup>2 + (y opp - y ballCarrier)\<^sup>2);
           st1 = (if below dist closestDist then (Some dist, Some opp) else (closestDist, closest));
           inRadius' = (if dist < PRESSURE_RADIUS then inRadius + 1 else inRadius);
           inHigh' = (if dist < HIGH_PRESSURE_RADIUS then inHigh + 1 else inHigh)
       in (fst st1, snd st1, inRadius', inHigh'))"

definition calculatePressure :: "'a point_scheme \<Rightarrow> player list \<Rightarrow> pressure" where
  "calculatePressure ballCarrier opponents =
    (case foldl (pressureStep ballCarrier) (None, None, 0, 0) opponents of
       (closestDist, closest, opponentsInRadius, opponentsInHighPressure) \<Rightarrow>
         let score =
               (case closestDist of
                  None \<Rightarrow> 0
                | Some cd \<Rightarrow>
                    if cd < HIGH_PRESSURE_RADIUS
                    then 0.9 + (real opponentsInHighPressure - 1) * 0.05
                    else if cd < PRESSURE_RADIUS
                    then 0.4 + (0.5 * (PRESSURE_RADIUS - cd)
                                  / (PRESSURE_RADIUS - HIGH_PRESSURE_RADIUS))
                    else if cd < 6
                    then 0.2 * (6 - cd) / 3
                    else 0)
         in \<lparr>pressureScore = min 1 score,
             closestOpponentDistance = closestDist,
             closestOpponent = closest,
             opponentsNearby = opponentsInRadius,
             underHighPressure = (opponentsInHighPressure > 0)\<rparr>)"

section \<open>actionModel.js\<close>

definition shotProbability :: "player \<Rightarrow> game_state \<Rightarrow> real" where
  "shotProbability ballCarrier gs =
    (let goalX = (if attackingRight gs then 52.5 else - 52.5);
         goalY = 0;
         distToGoal = sqrt ((x ballCarrier - goalX)\<^sup>2 + (y ballCarrier - goalY)\<^sup>2);
         attackingX = (if attackingRight gs then x ballCarrier else - x ballCarrier);
         inPenaltyBox = (attackingX > 36 \<and> \<bar>y ballCarrier\<bar> < 20.16);
         inSixYardBox = (attackingX > 47 \<and> \<bar>y ballCarrier\<bar> < 9.16);
         shotProb0 =
           (if inSixYardBox then 0.7
            else if inPenaltyBox then 0.5 * exp (- (distToGoal - 11) / 10)
            else if distToGoal < 25 then 0.15 * exp (- (distToGoal - 16.5) / 8)
            else 0.02 * exp (- distToGoal / 40));
         angleFactor = exp (- (y ballCarrier)\<^sup>2 / 400);
         shotProb1 = shotProb0 * angleFactor;
         pr = calculatePressure ballCarrier (opponentPlayers gs);
         shotProb2 =
           (if underHighPressure pr then shotProb1 * 0.6
            else if pressureScore pr > 0.5 then shotProb1 * 0.8
            else shotProb1)
     in min 0.9 (max 0.01 shotProb2))"

text \<open>
  \<open>driveProbability\<close> looks 5 m ahead of the carrier. The ball passed on is
  \<open>gameState.ball || ballCarrier\<close>; a snapshot always holds a ball object, which is truthy.
\<close>

definition driveProbability :: "player \<Rightarrow> game_state \<Rightarrow> real" where
  "driveProbability ballCarrier gs =
    (let speed = sqrt ((js_or (vx ballCarrier) 0)\<^sup>2 + (js_or (vy ballCarrier) 0)\<^sup>2);
         pr = calculatePressure ballCarrier (opponentPlayers gs);
         driveProb0 = (if speed > 4 then 0.5 else if speed > 2 then 0.4 else 0.3);
         lookAheadDist = 5;
         dirX = (if speed > 0.5 then vx ballCarrier / speed
                 else if attackingRight gs then 1 else - 1);
         dirY = (if speed > 0.5 then vy ballCarrier / speed else 0);
         aheadX = x ballCarrier + dirX * lookAheadDist;
         aheadY = y ballCarrier + dirY * lookAheadDist;
         spaceAhead = pitchControlAtPoint aheadX aheadY (teamPlayers gs) (opponentPlayers gs)
                        (ball gs);
         driveProb1 = driveProb0 * (0.5 + spaceAhead);
         driveProb2 =
           (if underHighPressure pr then driveProb1 * 0.4
            else if pressureScore pr > 0.6 then driveProb1 * 0.6
            else driveProb1);
         attackingX = (if attackingRight gs then x ballCarrier else - x ballCarrier);
         driveProb3 = (if attackingX < - 20 then driveProb2 * 0.7 else driveProb2)
     in min 0.8 (max 0.1 driveProb3))"

record action_probabilities =
  pass :: real
  drive :: real
  shot :: real

text \<open>
  \<open>getActionProbabilities\<close>; \<open>None\<close> is the missing carrier. \<open>probSum\<close> is the source's
  \<open>sum\<close>, added in the order shot, drive, pass; its constant \<open>total\<close> is never read and is
  left out.
\<close>

definition getActionProbabilities :: "player option \<Rightarrow> game_state \<Rightarrow> action_probabilities" where
  "getActionProbabilities ballCarrier gs =
    (case ballCarrier of
       None \<Rightarrow> \<lparr>pass = 0.6, drive = 0.35, shot = 0.05\<rparr>
     | Some bc \<Rightarrow>
         let pShot = shotProbability bc gs;
             pDrive = driveProbability bc gs;
             pPass = max 0.15 (1 - pShot - pDrive);
             probSum = pShot + pDrive + pPass
         in \<lparr>pass = pPass / probSum, drive = pDrive / probSum, shot = pShot / probSum\<rparr>)"

section \<open>defensiveLines.js\<close>

text \<open>
  The inner \<open>forEach\<close> of both nearest-centroid searches: \<open>i\<close> is the index reported for
  the current element, \<open>minDist\<close> starts as \<open>Infinity\<close>, and a closer element replaces the
  answer only when strictly closer.
\<close>

fun nearestFrom :: "real \<Rightarrow> real list \<Rightarrow> nat \<Rightarrow> real option \<Rightarrow> nat \<Rightarrow> nat" where
  "nearestFrom pos [] i minDist nearest = nearest"
| "nearestFrom pos (c # cs) i minDist nearest =
     (let dist = \<bar>pos - c\<bar>
      in if below dist minDist then nearestFrom pos cs (i + 1) (Some dist) i
         else nearestFrom pos cs (i + 1) minDist nearest)"

text \<open>\<open>clusters[nearestCluster].push(pos)\<close> for every position, in order.\<close>

definition assignClusters :: "real list \<Rightarrow> real list \<Rightarrow> real list list" where
  "assignClusters positions centroids =
    foldl (\<lambda>clusters pos.
             let nearestCluster = nearestFrom pos centroids 0 None 0
             in clusters[nearestCluster := clusters ! nearestCluster @ [pos]])
          (replicate (length centroids) []) positions"

definition updateCentroids :: "real list list \<Rightarrow> real list \<Rightarrow> real list" where
  "updateCentroids clusters centroids =
    map (\<lambda>(cluster, c). if length cluster = 0 then c
                         else foldl (+) 0 cluster / real (length cluster))
        (zip clusters centroids)"

text \<open>\<open>Math.max(...changes) < 0.5\<close>; the maximum of no number is \<open>-Infinity\<close>.\<close>

definition maxChangeBelow :: "real list \<Rightarrow> real \<Rightarrow> bool" where
  "maxChangeBelow changes bound =
    (case changes of [] \<Rightarrow> True | c # cs \<Rightarrow> foldl max c cs < bound)"

text \<open>The iteration, with the number of rounds still allowed.\<close>

fun iterateCentroids :: "nat \<Rightarrow> real list \<Rightarrow> real list \<Rightarrow> real list" where
  "iterateCentroids 0 positions centroids = centroids"
| "iterateCentroids (Suc n) positions centroids =
     (let clusters = assignClusters positions centroids;
          newCentroids = updateCentroids clusters centroids;
          changes = map (\<lambda>(c, c'). \<bar>c - c'\<bar>) (zip centroids newCentroids)
      in if maxChangeBelow changes 0.5 then newCentroids
         else iterateCentroids n positions newCentroids)"

text \<open>
  \<open>kMeans1D(positions, k = 3, maxIterations = 50)\<close>. The function is private to its module
  and called with \<open>k = 3\<close> only; past the length test the positions are not empty for
  \<open>k \<ge> 1\<close>.
\<close>

definition kMeans1D :: "real list \<Rightarrow> nat \<Rightarrow> nat \<Rightarrow> real list" where
  "kMeans1D positions k maxIterations =
    (if length positions < k then sort positions
     else
       let lo = foldl min (hd positions) (tl positions);
           hi = foldl max (hd positions) (tl positions);
           range = hi - lo;
           centroids = map (\<lambda>i. lo + (range * (real i + 0.5)) / real k) [0 ..< k]
       in sort (iterateCentroids maxIterations positions centroids))"

text \<open>
  The result of \<open>detectDefensiveLines\<close>. Reading index 1 or 2 of a shorter array gives
  \<open>undefined\<close>, here \<open>None\<close>. The assignment key is \<open>player.id || player.jerseyNum\<close>.
\<close>

record defensive_lines =
  lines :: "real list"
  firstLine :: "real option"
  secondLine :: "real option"
  thirdLine :: "real option"
  assignments :: "int \<rightharpoonup> nat"

definition at_index :: "'a list \<Rightarrow> nat \<Rightarrow> 'a option" where
  "at_index xs i = (if i < length xs then Some (xs ! i) else None)"

definition detectDefensiveLines :: "player list \<Rightarrow> bool \<Rightarrow> defensive_lines" where
  "detectDefensiveLines defenders attRight =
    (if length defenders = 0
     then \<lparr>lines = [0, 0, 0], firstLine = Some 0, secondLine = Some 0, thirdLine = Some 0,
           assignments = Map.empty\<rparr>
     else
       let xPositions = map (\<lambda>d. if attRight then x d else - x d) defenders;
           clustered = kMeans1D xPositions 3 50;
           actualLines = (if attRight then clustered else rev (map (\<lambda>v. - v) clustered));
           assigned =
             foldl (\<lambda>m player.
                      let playerX = (if attRight then x player else - x player);
                          nearestLine = nearestFrom playerX clustered 1 None 0
                      in m((if pid player \<noteq> 0 then pid player else jerseyNum player)
                             \<mapsto> nearestLine))
                   Map.empty defenders
       in \<lparr>lines = actualLines,
           firstLine = at_index actualLines 0,
           secondLine = at_index actualLines 1,
           thirdLine = at_index actualLines 2,
           assignments = assigned\<rparr>)"

text \<open>
  \<open>getRelativeZone\<close> reads the three lines back into attack-axis coordinates and tests
  them in order. A line that is \<open>undefined\<close> compares false.
\<close>

definition beforeLine :: "real \<Rightarrow> real option \<Rightarrow> bool" where
  "beforeLine a l = (case l of None \<Rightarrow> False | Some l' \<Rightarrow> a < l')"

definition getRelativeZone :: "real \<Rightarrow> real \<Rightarrow> defensive_lines \<Rightarrow> bool \<Rightarrow> string" where
  "getRelativeZone px py dl attRight =
    (let playerX = (if attRight then px else - px);
         line1 = map_option (\<lambda>l. if attRight then l else - l) (firstLine dl);
         line2 = map_option (\<lambda>l. if attRight then l else - l) (secondLine dl);
         line3 = map_option (\<lambda>l. if attRight then l else - l) (thirdLine dl)
     in if beforeLine playerX line1 then ''Z1''
        else if beforeLine playerX line2 then ''Z2''
        else if beforeLine playerX line3 then ''Z3''
        else ''Z4'')"

section \<open>Sample snapshots\<close>

text \<open>A striker at the centre spot running at 20 m/s along the pitch, faster than any
  role-capped maximum speed.\<close>

definition sprinter :: player where
  "sprinter = \<lparr>x = 0, y = 0, pid = 1, jerseyNum = 10, position = ''ST'', vx = 20, vy = 0\<rparr>"

text \<open>Three defenders, one per line.\<close>

definition backThree :: "player list" where
  "backThree =
    [\<lparr>x = - 10, y = 0, pid = 1, jerseyNum = 4, position = ''CB'', vx = 0, vy = 0\<rparr>,
     \<lparr>x = 0, y = 5, pid = 2, jerseyNum = 8, position = ''CM'', vx = 0, vy = 0\<rparr>,
     \<lparr>x = 10, y = - 5, pid = 3, jerseyNum = 9, position = ''ST'', vx = 0, vy = 0\<rparr>]"

text \<open>
  A possession attacking towards positive \<open>x\<close>: the carrier at the centre spot, one
  team-mate 10 m ahead of him and one 10 m behind, all standing. Two opponents stand within
  half a metre of the forward team-mate.
\<close>

definition carrier :: player where
  "carrier = \<lparr>x = 0, y = 0, pid = 8, jerseyNum = 8, position = ''CM'', vx = 0, vy = 0\<rparr>"

definition forwardMate :: player where
  "forwardMate = \<lparr>x = 10, y = 0, pid = 9, jerseyNum = 9, position = ''ST'', vx = 0, vy = 0\<rparr>"

definition backwardMate :: player where
  "backwardMate = \<lparr>x = - 10, y = 0, pid = 4, jerseyNum = 4, position = ''CB'', vx = 0, vy = 0\<rparr>"

definition markerA :: player where
  "markerA = \<lparr>x = 10.3, y = 0, pid = 25, jerseyNum = 5, position = ''CB'', vx = 0, vy = 0\<rparr>"

definition markerB :: player where
  "markerB = \<lparr>x = 9.7, y = 0, pid = 26, jerseyNum = 6, position = ''CB'', vx = 0, vy = 0\<rparr>"

definition markedForward :: game_state where
  "markedForward =
    \<lparr>teamPlayers = [carrier, forwardMate, backwardMate],
     opponentPlayers = [markerA, markerB],
     ball = \<lparr>x = 0, y = 0\<rparr>,
     attackingRight = True\<rparr>"

text \<open>A second team-mate on the very spot of the first, under another identity.\<close>

definition twinMate :: player where
  "twinMate = forwardMate\<lparr>pid := 11, jerseyNum := 11\<rparr>"

definition twinPossession :: game_state where
  "twinPossession =
    \<lparr>teamPlayers = [carrier, forwardMate, twinMate],
     opponentPlayers = [markerA],
     ball = \<lparr>x = 0, y = 0\<rparr>,
     attackingRight = True\<rparr>"

text \<open>
  A pressed possession attacking towards positive \<open>x\<close>: the carrier with the ball at
  \<open>(0.5, 1)\<close>, two opponents on him, one team-mate half a metre ahead of him and one half
  a metre behind, all standing.
\<close>

definition pressedCarrier :: player where
  "pressedCarrier = \<lparr>x = 0.5, y = 1, pid = 8, jerseyNum = 8, position = ''CM'', vx = 0, vy = 0\<rparr>"

definition shortForward :: player where
  "shortForward = \<lparr>x = 1, y = 1, pid = 9, jerseyNum = 9, position = ''ST'', vx = 0, vy = 0\<rparr>"

definition shortBackward :: player where
  "shortBackward = \<lparr>x = 0, y = 1, pid = 4, jerseyNum = 4, position = ''CB'', vx = 0, vy = 0\<rparr>"

definition presserA :: player where
  "presserA = \<lparr>x = 0.5, y = 1, pid = 25, jerseyNum = 5, position = ''CB'', vx = 0, vy = 0\<rparr>"

definition presserB :: player where
  "presserB = \<lparr>x = 0.5, y = 1, pid = 26, jerseyNum = 6, position = ''CDM'', vx = 0, vy = 0\<rparr>"

definition pressedPossession :: game_state where
  "pressedPossession =
    \<lparr>teamPlayers = [pressedCarrier, shortForward, shortBackward],
     opponentPlayers = [presserA, presserB],
     ball = \<lparr>x = 0.5, y = 1\<rparr>,
     attackingRight = True\<rparr>"

text \<open>A hand-made control surface of a single cell.\<close>

definition singleCell :: surface where
  "singleCell = \<lparr>grid = [[0.75]], gridWidth = 1, gridHeight = 1, resolution = 10,
                  pitchLength = 10, pitchWidth = 10\<rparr>"

section \<open>The kinematic interceptor\<close>

lemma speedFactorOf_pos: "0 < speedFactorOf pos"
  by (simp add: speedFactorOf_def POSITION_SPEED_FACTORS_def js_or_def)

lemma maxSpeed_pos: "0 < PLAYER_MAX_SPEED * speedFactorOf pos"
  using speedFactorOf_pos[of pos] by (simp add: PLAYER_MAX_SPEED_def)

lemma js_or_zero: "js_or a 0 = a"
  by (simp add: js_or_def)

text \<open>
  The acceleration phase and the constant-speed phase together never take negative time,
  also when the mover already runs faster than its cap \<open>m\<close> (then the first term is
  negative and the second makes up for it).
\<close>

lemma accel_phase_nonneg:
  fixes m v d A :: real
  assumes m: "0 < m" and d: "0 \<le> d" and A: "0 < A"
  shows "0 \<le> (m - max 0 v) / A
           + max 0 (d - (v * ((m - max 0 v) / A)
                         + 0.5 * A * ((m - max 0 v) / A) * ((m - max 0 v) / A))) / m"
proof (cases "v \<le> m")
  case True
  then have "0 \<le> (m - max 0 v) / A" using m A by simp
  moreover have "0 \<le> max 0 (d - (v * ((m - max 0 v) / A)
                         + 0.5 * A * ((m - max 0 v) / A) * ((m - max 0 v) / A))) / m"
    using m by simp
  ultimately show ?thesis by linarith
next
  case False
  then have vm: "m < v" by simp
  then have mx: "max 0 v = v" using m by simp
  define t where "t = (v - m) / A"
  have tpos: "0 < t" using vm A by (simp add: t_def)
  have at: "(m - max 0 v) / A = - t" using A by (simp add: mx t_def field_simps)
  have ad: "v * (- t) + 0.5 * A * (- t) * (- t) = - (t * (v + m) / 2)"
    using A by (simp add: t_def field_simps)
  have "t * m \<le> t * ((v + m) / 2)" using tpos vm by (intro mult_left_mono) auto
  then have "t * m \<le> d + t * (v + m) / 2" using d by simp
  then have "t \<le> (d + t * (v + m) / 2) / m" using m by (simp add: pos_le_divide_eq)
  also have "\<dots> \<le> max 0 (d + t * (v + m) / 2) / m"
    using m by (intro divide_right_mono) auto
  finally have "0 \<le> - t + max 0 (d - (- (t * (v + m) / 2))) / m" by simp
  then show ?thesis unfolding at ad .
qed

lemma timeToIntercept_near:
  assumes "sqrt ((tx - x p) * (tx - x p) + (ty - y p) * (ty - y p)) < 0.5"
  shows "timeToIntercept p tx ty = 0"
  unfolding timeToIntercept_def Let_def using assms by (simp only: if_True)

lemma timeToIntercept_far:
  assumes "\<not> sqrt ((tx - x p) * (tx - x p) + (ty - y p) * (ty - y p)) < 0.5"
  shows "REACTION_TIME \<le> timeToIntercept p tx ty"
proof -
  have A: "0 < PLAYER_ACCELERATION" by (simp add: PLAYER_ACCELERATION_def)
  have d0: "0 \<le> sqrt ((tx - x p) * (tx - x p) + (ty - y p) * (ty - y p))" by simp
  show ?thesis
    unfolding timeToIntercept_def Let_def js_or_zero
    using assms accel_phase_nonneg[OF maxSpeed_pos d0 A]
    by (simp only: if_False add.assoc le_add_same_cancel1)
qed

lemma timeToIntercept_nonneg: "0 \<le> timeToIntercept p tx ty"
  using timeToIntercept_near[of tx p ty] timeToIntercept_far[of tx p ty]
  by (cases "sqrt ((tx - x p) * (tx - x p) + (ty - y p) * (ty - y p)) < 0.5")
     (simp_all add: REACTION_TIME_def)

text \<open>
  Claim C10. At a straight-line distance of at least 0.5 m, \<open>timeToIntercept\<close> is at least
  the reaction time 0.7 s; so its value is never strictly between 0 and 0.7, whatever the
  mover's velocity towards the target.
\<close>

theorem timeToIntercept_reaction_floor:
  "(0.5 \<le> sqrt ((tx - x p) * (tx - x p) + (ty - y p) * (ty - y p))
      \<longrightarrow> 0.7 \<le> timeToIntercept p tx ty)
   \<and> \<not> (0 < timeToIntercept p tx ty \<and> timeToIntercept p tx ty < 0.7)"
proof (cases "sqrt ((tx - x p) * (tx - x p) + (ty - y p) * (ty - y p)) < 0.5")
  case True
  then have "timeToIntercept p tx ty = 0" by (rule timeToIntercept_near)
  with True show ?thesis by simp
next
  case False
  then have "REACTION_TIME \<le> timeToIntercept p tx ty" by (rule timeToIntercept_far)
  then have "0.7 \<le> timeToIntercept p tx ty" by (simp add: REACTION_TIME_def)
  then show ?thesis by simp
qed

theorem timeToIntercept_reaction_floor_witness:
  "0.5 \<le> sqrt ((3 - x sprinter) * (3 - x sprinter) + (4 - y sprinter) * (4 - y sprinter))
   \<and> 0.7 \<le> timeToIntercept sprinter 3 4"
proof -
  have "sqrt ((3 - x sprinter) * (3 - x sprinter) + (4 - y sprinter) * (4 - y sprinter)) = 5"
    by (simp add: sprinter_def real_sqrt_unique)
  then show ?thesis using timeToIntercept_reaction_floor[of 3 sprinter 4] by simp
qed

text \<open>A target at distance \<open>d\<close> along the unit direction \<open>(ux, uy)\<close> from the mover.\<close>

lemma ray_distance:
  fixes d ux uy ox oy :: real
  assumes u: "ux\<^sup>2 + uy\<^sup>2 = 1" and d: "0 \<le> d"
  shows "sqrt ((ox + d * ux - ox) * (ox + d * ux - ox) + (oy + d * uy - oy) * (oy + d * uy - oy)) = d"
proof -
  have "(ox + d * ux - ox) * (ox + d * ux - ox) + (oy + d * uy - oy) * (oy + d * uy - oy)
        = d\<^sup>2 * (ux\<^sup>2 + uy\<^sup>2)"
    by (simp add: power2_eq_square algebra_simps)
  then show ?thesis using u d by simp
qed

lemma timeToIntercept_ray:
  assumes u: "ux\<^sup>2 + uy\<^sup>2 = 1" and d: "0.5 \<le> d"
  shows "timeToIntercept p (x p + d * ux) (y p + d * uy) =
    REACTION_TIME
     + (PLAYER_MAX_SPEED * speedFactorOf (position p) - max 0 (vx p * ux + vy p * uy))
         / PLAYER_ACCELERATION
     + max 0 (d - ((vx p * ux + vy p * uy) *
                   ((PLAYER_MAX_SPEED * speedFactorOf (position p) - max 0 (vx p * ux + vy p * uy))
                      / PLAYER_ACCELERATION)
                 + 0.5 * PLAYER_ACCELERATION *
                   ((PLAYER_MAX_SPEED * speedFactorOf (position p) - max 0 (vx p * ux + vy p * uy))
                      / PLAYER_ACCELERATION) *
                   ((PLAYER_MAX_SPEED * speedFactorOf (position p) - max 0 (vx p * ux + vy p * uy))
                      / PLAYER_ACCELERATION)))
       / (PLAYER_MAX_SPEED * speedFactorOf (position p))"
proof -
  have d0: "0 \<le> d" and dn: "d \<noteq> 0" and nl: "\<not> d < 0.5" using d by simp_all
  have dist: "sqrt ((x p + d * ux - x p) * (x p + d * ux - x p)
                 + (y p + d * uy - y p) * (y p + d * uy - y p)) = d"
    by (rule ray_distance[OF u d0])
  have dx: "(x p + d * ux - x p) / d = ux" and dy: "(y p + d * uy - y p) / d = uy"
    using dn by simp_all
  show ?thesis
    unfolding timeToIntercept_def Let_def js_or_zero dist dx dy
    using nl by (simp only: if_False)
qed

text \<open>
  Claim C4. For a mover with a fixed velocity and a fixed unit direction \<open>(ux, uy)\<close> towards
  the target, \<open>timeToIntercept\<close> is non-negative and does not decrease when the target moves
  from distance \<open>d1\<close> to a larger distance \<open>d2\<close> along that direction.
\<close>

theorem timeToIntercept_monotone:
  assumes "ux\<^sup>2 + uy\<^sup>2 = 1" and "0 \<le> d1" and "d1 \<le> d2"
  shows "0 \<le> timeToIntercept p (x p + d1 * ux) (y p + d1 * uy)
       \<and> timeToIntercept p (x p + d1 * ux) (y p + d1 * uy)
           \<le> timeToIntercept p (x p + d2 * ux) (y p + d2 * uy)"
proof -
  have mono: "timeToIntercept p (x p + d1 * ux) (y p + d1 * uy)
           \<le> timeToIntercept p (x p + d2 * ux) (y p + d2 * uy)"
  proof (cases "d1 < 0.5")
    case True
    have "sqrt ((x p + d1 * ux - x p) * (x p + d1 * ux - x p)
              + (y p + d1 * uy - y p) * (y p + d1 * uy - y p)) = d1"
      by (rule ray_distance[OF assms(1,2)])
    with True have "timeToIntercept p (x p + d1 * ux) (y p + d1 * uy) = 0"
      by (intro timeToIntercept_near) simp
    then show ?thesis using timeToIntercept_nonneg[of p "x p + d2 * ux" "y p + d2 * uy"] by simp
  next
    case False
    then have h1: "0.5 \<le> d1" and h2: "0.5 \<le> d2" using assms(3) by simp_all
    have m: "0 < PLAYER_MAX_SPEED * speedFactorOf (position p)" by (rule maxSpeed_pos)
    show ?thesis
      unfolding timeToIntercept_ray[OF assms(1) h1] timeToIntercept_ray[OF assms(1) h2]
      using assms(3) m by (intro add_left_mono divide_right_mono max.mono) simp_all
  qed
  from timeToIntercept_nonneg mono show ?thesis by simp
qed

theorem timeToIntercept_monotone_witness:
  "timeToIntercept sprinter 1 0 \<le> timeToIntercept sprinter 2 0
   \<and> 0 \<le> timeToIntercept sprinter 1 0"
  using timeToIntercept_monotone[of 1 0 1 2 sprinter] by (simp add: sprinter_def)

section \<open>The spatial control field\<close>

lemma influence_foldl_ge: "acc \<le> foldl (influenceStep bt px py) acc ps"
proof (induction ps arbitrary: acc)
  case Nil
  show ?case by simp
next
  case (Cons p ps)
  have "0 < 1 / (1 + exp (- 4 * (bt - timeToIntercept p px py)))"
    by (simp add: add_pos_pos)
  then have "acc \<le> influenceStep bt px py acc p"
    by (simp add: influenceStep_def Let_def)
  also have "\<dots> \<le> foldl (influenceStep bt px py) (influenceStep bt px py acc p) ps"
    by (rule Cons.IH)
  finally show ?case by simp
qed

lemma control_ratio_bounds:
  fixes t o' :: real
  assumes "0 \<le> t" and "0 \<le> o'"
  shows "0 \<le> (if t + o' = 0 then 0.5 else t / (t + o'))
       \<and> (if t + o' = 0 then 0.5 else t / (t + o')) \<le> 1"
  using assms by (auto simp: divide_le_eq_1)

lemma pitchControlAtPoint_bounds:
  "0 \<le> pitchControlAtPoint px py team opponents b
   \<and> pitchControlAtPoint px py team opponents b \<le> 1"
  unfolding pitchControlAtPoint_def Let_def
  by (rule control_ratio_bounds) (rule influence_foldl_ge)+

text \<open>
  Claim C5. \<open>pitchControlAtPoint\<close> returns a probability in \<open>[0, 1]\<close> for every point, ball
  and pair of mover collections, and exactly 0.5 when both collections are empty.
\<close>

theorem pitchControlAtPoint_range:
  "0 \<le> pitchControlAtPoint px py team opponents b
   \<and> pitchControlAtPoint px py team opponents b \<le> 1
   \<and> pitchControlAtPoint px py [] [] b = 0.5"
proof -
  have "pitchControlAtPoint px py [] [] b = 0.5"
    by (simp add: pitchControlAtPoint_def Let_def)
  with pitchControlAtPoint_bounds[of px py team opponents b] show ?thesis by simp
qed

text \<open>
  Claim C9. One mover of the possessing side at \<open>(0, 0)\<close>, no opponent, the ball at
  \<open>(0, 0)\<close>: the control at \<open>(0, 0)\<close> is exactly 1, the side's influence being 0.5 and the
  opponents' 0, so that the total is not zero and the neutral fallback is not taken.
\<close>

theorem pitchControlAtPoint_single_mover:
  "pitchControlAtPoint 0 0 [p\<lparr>x := 0, y := 0\<rparr>] [] \<lparr>x = 0, y = 0\<rparr> = 1
   \<and> foldl (influenceStep (ballTravelTime \<lparr>x = 0, y = 0\<rparr> 0 0) 0 0) 0 [p\<lparr>x := 0, y := 0\<rparr>] = 0.5
   \<and> foldl (influenceStep (ballTravelTime \<lparr>x = 0, y = 0\<rparr> 0 0) 0 0) 0 [] = 0"
  by (simp add: pitchControlAtPoint_def Let_def influenceStep_def ballTravelTime_def
      timeToIntercept_def)

section \<open>Surfaces and their lookups\<close>

lemma bind_fault_Inr:
  "bind_fault m f = Inr r \<longleftrightarrow> (\<exists>v. m = Inr v \<and> f v = Inr r)"
  by (cases m) (simp_all add: bind_fault_def)

lemma generatePitchControlSurface_shape:
  assumes "generatePitchControlSurface team opponents b options = Inr s"
  shows "resolution s \<noteq> 0"
    and "length (grid s) = nat (gridHeight s)"
    and "\<And>row. row \<in> set (grid s) \<Longrightarrow> length row = nat (gridWidth s)"
  using assms
  by (auto simp: generatePitchControlSurface_def Let_def split: if_splits)

lemma generateEPVSurface_shape:
  assumes "generateEPVSurface gs options = Inr s"
  shows "resolution s \<noteq> 0"
    and "length (grid s) = nat (gridHeight s)"
    and "\<And>row. row \<in> set (grid s) \<Longrightarrow> length row = nat (gridWidth s)"
  using assms
  by (auto simp: generateEPVSurface_def generatePitchControlSurface_def Let_def bind_fault_Inr
      split: if_splits)

lemma cellLookup_outside:
  assumes res: "resolution s \<noteq> 0"
    and rows: "length (grid s) = nat (gridHeight s)"
    and cols: "\<And>row. row \<in> set (grid s) \<Longrightarrow> length row = nat (gridWidth s)"
    and out: "\<lfloor>(py + pitchWidth s / 2) / resolution s\<rfloor> < 0
            \<or> \<lfloor>(py + pitchWidth s / 2) / resolution s\<rfloor> \<ge> gridHeight s
            \<or> \<lfloor>(px + pitchLength s / 2) / resolution s\<rfloor> < 0
            \<or> \<lfloor>(px + pitchLength s / 2) / resolution s\<rfloor> \<ge> gridWidth s"
  shows "cellLookup s px py neutral = Inr neutral"
proof (cases "grid s")
  case Nil
  have "a < 0 \<or> 0 \<le> a \<or> c" for a :: real and c by linarith
  then show ?thesis using Nil res by (simp add: cellLookup_def Let_def)
next
  case (Cons row0 rest)
  then have "length row0 = nat (gridWidth s)" using cols by simp
  then show ?thesis using res rows out Cons
    by (auto simp: cellLookup_def Let_def)
qed

text \<open>A lookup in a generated surface always yields a number.\<close>

lemma cellLookup_defined:
  assumes res: "resolution s \<noteq> 0"
    and cols: "\<And>row. row \<in> set (grid s) \<Longrightarrow> length row = nat (gridWidth s)"
  shows "\<exists>v. cellLookup s px py neutral = Inr v"
proof (cases "grid s")
  case Nil
  have "a < 0 \<or> 0 \<le> a \<or> c" for a :: real and c by linarith
  then show ?thesis using Nil res by (simp add: cellLookup_def Let_def)
next
  case (Cons row0 rest)
  define xi where "xi = \<lfloor>(px + pitchLength s / 2) / resolution s\<rfloor>"
  define yi where "yi = \<lfloor>(py + pitchWidth s / 2) / resolution s\<rfloor>"
  have r0: "length row0 = nat (gridWidth s)" using cols Cons by simp
  show ?thesis
  proof (cases "yi < 0 \<or> yi \<ge> int (length (grid s)) \<or> xi < 0 \<or> xi \<ge> int (length row0)")
    case True
    then show ?thesis using res Cons
      by (auto simp: cellLookup_def Let_def xi_def yi_def)
  next
    case False
    then have "nat yi < length (grid s)" by auto
    then have "grid s ! nat yi \<in> set (grid s)" by simp
    then have "length (grid s ! nat yi) = nat (gridWidth s)" by (rule cols)
    moreover from False r0 have "0 \<le> xi" and "xi < int (nat (gridWidth s))" by simp_all
    ultimately have "nat xi < length (grid s ! nat yi)" by linarith
    with False show ?thesis using res Cons
      by (auto simp: cellLookup_def Let_def xi_def yi_def)
  qed
qed

lemma generatePitchControlSurface_fields:
  assumes "generatePitchControlSurface team opponents b options = Inr s"
  shows "resolution s = optResolution options"
    and "pitchLength s = optPitchLength options"
    and "pitchWidth s = optPitchWidth options"
    and "gridWidth s = \<lceil>optPitchLength options / optResolution options\<rceil>"
    and "gridHeight s = \<lceil>optPitchWidth options / optResolution options\<rceil>"
  using assms
  by (auto simp: generatePitchControlSurface_def Let_def split: if_splits)

lemma generateEPVSurface_fields:
  assumes "generateEPVSurface gs options = Inr s"
  shows "resolution s = optResolution options"
    and "pitchLength s = optPitchLength options"
    and "pitchWidth s = optPitchWidth options"
    and "gridWidth s = \<lceil>optPitchLength options / optResolution options\<rceil>"
    and "gridHeight s = \<lceil>optPitchWidth options / optResolution options\<rceil>"
  using assms
  by (auto simp: generateEPVSurface_def generatePitchControlSurface_def Let_def bind_fault_Inr
      split: if_splits)

lemma generatePitchControlSurface_default:
  "\<exists>s. generatePitchControlSurface team opponents b default_options = Inr s"
  by (simp add: generatePitchControlSurface_def default_options_def Let_def)

lemma generateEPVSurface_default:
  "\<exists>s. generateEPVSurface gs default_options = Inr s"
  by (simp add: generateEPVSurface_def generatePitchControlSurface_def default_options_def
      Let_def bind_fault_def)

text \<open>
  Claim C7. In a generated control surface and a generated value surface, a coordinate whose
  floored cell index lies outside the grid is answered with the neutral value, 0.5 and 0, and
  not with a fault.
\<close>

theorem lookup_outside_grid_neutral:
  assumes "generatePitchControlSurface team opponents b options = Inr cs"
    and "generateEPVSurface gs options' = Inr es"
    and "\<lfloor>(py + pitchWidth cs / 2) / resolution cs\<rfloor> < 0
       \<or> \<lfloor>(py + pitchWidth cs / 2) / resolution cs\<rfloor> \<ge> gridHeight cs
       \<or> \<lfloor>(px + pitchLength cs / 2) / resolution cs\<rfloor> < 0
       \<or> \<lfloor>(px + pitchLength cs / 2) / resolution cs\<rfloor> \<ge> gridWidth cs"
    and "\<lfloor>(qy + pitchWidth es / 2) / resolution es\<rfloor> < 0
       \<or> \<lfloor>(qy + pitchWidth es / 2) / resolution es\<rfloor> \<ge> gridHeight es
       \<or> \<lfloor>(qx + pitchLength es / 2) / resolution es\<rfloor> < 0
       \<or> \<lfloor>(qx + pitchLength es / 2) / resolution es\<rfloor> \<ge> gridWidth es"
  shows "getPitchControlAt cs px py = Inr 0.5 \<and> getEPVAt es qx qy = Inr 0"
proof -
  have "cellLookup cs px py 0.5 = Inr 0.5"
    using generatePitchControlSurface_shape[OF assms(1)] assms(3)
    by (intro cellLookup_outside) 
  moreover have "cellLookup es qx qy 0 = Inr 0"
    using generateEPVSurface_shape[OF assms(2)] assms(4)
    by (intro cellLookup_outside)
  ultimately show ?thesis by (simp add: getPitchControlAt_def getEPVAt_def)
qed

theorem lookup_outside_grid_neutral_witness:
  "\<exists>cs es. generatePitchControlSurface (teamPlayers markedForward) (opponentPlayers markedForward)
              (ball markedForward) default_options = Inr cs
     \<and> generateEPVSurface markedForward default_options = Inr es
     \<and> \<lfloor>(60 + pitchLength cs / 2) / resolution cs\<rfloor> \<ge> gridWidth cs
     \<and> \<lfloor>(- 40 + pitchWidth es / 2) / resolution es\<rfloor> < 0
     \<and> getPitchControlAt cs 60 0 = Inr 0.5
     \<and> getEPVAt es 0 (- 40) = Inr 0"
proof -
  obtain cs where cs: "generatePitchControlSurface (teamPlayers markedForward)
      (opponentPlayers markedForward) (ball markedForward) default_options = Inr cs"
    using generatePitchControlSurface_default by blast
  obtain es where es: "generateEPVSurface markedForward default_options = Inr es"
    using generateEPVSurface_default by blast
  have c: "\<lfloor>(60 + pitchLength cs / 2) / resolution cs\<rfloor> \<ge> gridWidth cs"
    by (simp add: generatePitchControlSurface_fields[OF cs] default_options_def)
  have e: "\<lfloor>(- 40 + pitchWidth es / 2) / resolution es\<rfloor> < 0"
    by (simp add: generateEPVSurface_fields[OF es] default_options_def)
  from lookup_outside_grid_neutral[OF cs es, of 0 60 "- 40" 0] c e
  have "getPitchControlAt cs 60 0 = Inr 0.5 \<and> getEPVAt es 0 (- 40) = Inr 0" by simp
  with cs es c e show ?thesis by blast
qed

section \<open>The possession value\<close>

lemma clamp_unit: "- 1 \<le> max (- 1) (min 1 (v::real)) \<and> max (- 1) (min 1 v) \<le> 1"
  by simp

text \<open>
  Claim C6. \<open>calculateEPV\<close> is the progression value times \<open>(control - 0.5) * 2\<close>, clamped
  to \<open>[-1, 1]\<close>: with the control computed at the point when no surface is supplied, and
  with the control \<open>c\<close> read from the surface otherwise. Whatever it returns lies in
  \<open>[-1, 1]\<close>.
\<close>

theorem calculateEPV_clamped_product:
  "calculateEPV px py gs None =
     Inr (max (- 1) (min 1 (progressionValue px py (attackingRight gs)
            * ((pitchControlAtPoint px py (teamPlayers gs) (opponentPlayers gs) (ball gs) - 0.5) * 2))))
   \<and> (getPitchControlAt s px py = Inr c \<longrightarrow>
        calculateEPV px py gs (Some s) =
          Inr (max (- 1) (min 1 (progressionValue px py (attackingRight gs) * ((c - 0.5) * 2)))))
   \<and> (calculateEPV px py gs surf = Inr v \<longrightarrow> - 1 \<le> v \<and> v \<le> 1)"
proof -
  have direct: "calculateEPV px py gs None =
     Inr (max (- 1) (min 1 (progressionValue px py (attackingRight gs)
            * ((pitchControlAtPoint px py (teamPlayers gs) (opponentPlayers gs) (ball gs) - 0.5) * 2))))"
    by (simp add: calculateEPV_def Let_def bind_fault_def)
  have looked: "calculateEPV px py gs (Some s) =
          Inr (max (- 1) (min 1 (progressionValue px py (attackingRight gs) * ((c - 0.5) * 2))))"
    if "getPitchControlAt s px py = Inr c"
    using that by (simp add: calculateEPV_def Let_def bind_fault_def)
  have range: "- 1 \<le> v \<and> v \<le> 1" if "calculateEPV px py gs surf = Inr v"
  proof -
    from that obtain w where "v = max (- 1) (min 1 w)"
      by (auto simp: calculateEPV_def Let_def bind_fault_Inr)
    then show ?thesis using clamp_unit[of w] by simp
  qed
  from direct looked range show ?thesis by blast
qed

theorem calculateEPV_clamped_product_witness:
  "getPitchControlAt singleCell 0 0 = Inr 0.75
   \<and> calculateEPV 0 0 markedForward (Some singleCell) = Inr 0.2
   \<and> - 1 \<le> (0.2 :: real) \<and> (0.2 :: real) \<le> 1"
proof -
  have l: "getPitchControlAt singleCell 0 0 = Inr 0.75"
    by (simp add: getPitchControlAt_def cellLookup_def singleCell_def Let_def)
  have p: "progressionValue 0 0 (attackingRight markedForward) = 0.4"
    by (simp add: progressionValue_def markedForward_def Let_def)
  from calculateEPV_clamped_product[of 0 0 markedForward singleCell "0.75" "Some singleCell" "0.2"] l p
  show ?thesis by simp
qed

section \<open>Ranking the pass options\<close>

lemma calculateEPV_direct:
  "\<exists>v. calculateEPV px py gs None = Inr v"
  by (simp add: calculateEPV_def Let_def bind_fault_def)

lemma calculateTurnoverEPV_total:
  "\<exists>t. calculateTurnoverEPV passer rcv opponents gs = Inr t"
  by (simp add: calculateTurnoverEPV_def calculateEPV_def Let_def bind_fault_def)

lemma evaluatePass_total:
  assumes "\<exists>v. (case surf of Some s \<Rightarrow> getEPVAt s (x rcv) (y rcv)
                  | None \<Rightarrow> calculateEPV (x rcv) (y rcv) (gs\<lparr>ball := \<lparr>x = x rcv, y = y rcv\<rparr>\<rparr>) None) = Inr v"
  shows "\<exists>e. evaluatePass passer rcv gs surf = Inr e"
proof -
  from assms obtain v where v: "(case surf of Some s \<Rightarrow> getEPVAt s (x rcv) (y rcv)
        | None \<Rightarrow> calculateEPV (x rcv) (y rcv) (gs\<lparr>ball := \<lparr>x = x rcv, y = y rcv\<rparr>\<rparr>) None) = Inr v"
    by blast
  obtain t where t: "calculateTurnoverEPV passer rcv (opponentPlayers gs) gs = Inr t"
    using calculateTurnoverEPV_total by blast
  show ?thesis
    unfolding evaluatePass_def Let_def v t by (simp add: bind_fault_def)
qed

lemma passOptionOf_total:
  assumes "generateEPVSurface gs options = Inr s"
  shows "\<exists>opt. passOptionOf bc gs s cEPV teammate = Inr opt"
proof -
  have "\<exists>v. getEPVAt s (x teammate) (y teammate) = Inr v"
    unfolding getEPVAt_def
    using generateEPVSurface_shape[OF assms] by (intro cellLookup_defined)
  then have "\<exists>e. evaluatePass bc teammate gs (Some s) = Inr e"
    by (intro evaluatePass_total) simp
  then show ?thesis by (auto simp: passOptionOf_def bind_fault_def)
qed

lemma collect_total:
  assumes "\<And>r. r \<in> set rs \<Longrightarrow> \<exists>v. r = Inr v"
  shows "\<exists>vs. collect rs = Inr vs \<and> rs = map Inr vs"
  using assms
proof (induction rs)
  case Nil
  show ?case by simp
next
  case (Cons r rs)
  from Cons.prems obtain v where v: "r = Inr v" by auto
  from Cons obtain vs where vs: "collect rs = Inr vs" "rs = map Inr vs" by auto
  show ?case using v vs by simp
qed

lemma sorted_wrt_descending:
  "sorted_wrt (\<lambda>a b. f b \<le> (f a :: real)) (sort_key (\<lambda>v. - f v) vs)"
proof -
  have "sorted (map (\<lambda>v. - f v) (sort_key (\<lambda>v. - f v) vs))" by (rule sorted_sort_key)
  then show ?thesis by (simp add: sorted_map)
qed

text \<open>For a carrier and at least one team-mate, the result is the sorted list of the
  team-mates' evaluations against the surface generated with the default options.\<close>

lemma findPassOptions_sorted_evaluations:
  assumes "teammates \<noteq> []"
  shows "\<exists>cEPV s vs. generateEPVSurface gs default_options = Inr s
           \<and> map (passOptionOf bc gs s cEPV) teammates = map Inr vs
           \<and> findPassOptions (Some bc) teammates gs
               = Inr (sort_key (\<lambda>opt. - epvAdded opt) vs)"
proof -
  obtain cEPV where c: "calculateEPV (x bc) (y bc) gs None = Inr cEPV"
    using calculateEPV_direct by blast
  obtain s where s: "generateEPVSurface gs default_options = Inr s"
    using generateEPVSurface_default by blast
  have "\<exists>vs. collect (map (passOptionOf bc gs s cEPV) teammates) = Inr vs
          \<and> map (passOptionOf bc gs s cEPV) teammates = map Inr vs"
    using passOptionOf_total[OF s] by (intro collect_total) auto
  then obtain vs where vs: "collect (map (passOptionOf bc gs s cEPV) teammates) = Inr vs"
    and m: "map (passOptionOf bc gs s cEPV) teammates = map Inr vs" by blast
  have "findPassOptions (Some bc) teammates gs = Inr (sort_key (\<lambda>opt. - epvAdded opt) vs)"
    using assms by (simp add: findPassOptions_def c s vs bind_fault_def)
  with s m show ?thesis by blast
qed

lemma passOptionOf_target:
  assumes "passOptionOf bc gs s c t = Inr a"
  shows "target a = t"
  using assms unfolding passOptionOf_def bind_fault_Inr by auto

lemma targets_of_evaluations:
  assumes "map (passOptionOf bc gs s c) ts = map Inr vs"
  shows "map target vs = ts"
  using assms
proof (induction ts arbitrary: vs)
  case Nil
  then show ?case by simp
next
  case (Cons t ts)
  then obtain v vs' where vs: "vs = v # vs'" by (cases vs) auto
  with Cons.prems have "passOptionOf bc gs s c t = Inr v"
    and "map (passOptionOf bc gs s c) ts = map Inr vs'" by simp_all
  then show ?case using Cons.IH vs passOptionOf_target by simp
qed

text \<open>
  Claim C2, amended. \<open>findPassOptions\<close> always returns a list; with a carrier its targets
  are the team-mates, each once; and it is in descending order of \<open>epvAdded\<close> where equal
  values may follow each other: each element's value added is at least the next element's.
\<close>

theorem findPassOptions_descending:
  "\<exists>opts. findPassOptions ballCarrier teammates gs = Inr opts
         \<and> sorted_wrt (\<lambda>a b. epvAdded b \<le> epvAdded a) opts
         \<and> mset (map target opts) = (if ballCarrier = None then {#} else mset teammates)"
proof (cases ballCarrier)
  case None
  then show ?thesis by (simp add: findPassOptions_def)
next
  case (Some bc)
  show ?thesis
  proof (cases "teammates = []")
    case True
    then show ?thesis using Some by (simp add: findPassOptions_def)
  next
    case False
    from findPassOptions_sorted_evaluations[OF False, of gs bc]
    obtain cEPV s vs where m: "map (passOptionOf bc gs s cEPV) teammates = map Inr vs"
      and f: "findPassOptions (Some bc) teammates gs = Inr (sort_key (\<lambda>opt. - epvAdded opt) vs)"
      by blast
    have "mset (map target (sort_key (\<lambda>opt. - epvAdded opt) vs)) = mset (map target vs)"
      by simp
    also have "\<dots> = mset teammates" using targets_of_evaluations[OF m] by simp
    finally show ?thesis using sorted_wrt_descending[of epvAdded vs] f Some by simp
  qed
qed

text \<open>The evaluation of a pass reads the receiver's coordinates only.\<close>

lemma closestStep_cong:
  assumes "x r1 = x r2" and "y r1 = y r2"
  shows "closestStep r1 = closestStep r2"
  using assms by (intro ext) (simp add: closestStep_def)

lemma calculateTurnoverEPV_cong:
  assumes "x r1 = x r2" and "y r1 = y r2"
  shows "calculateTurnoverEPV p r1 os gs = calculateTurnoverEPV p r2 os gs"
  unfolding calculateTurnoverEPV_def closestStep_cong[OF assms] assms by (rule refl)

lemma calculateInterceptionProbability_cong:
  assumes "x r1 = x r2" and "y r1 = y r2"
  shows "calculateInterceptionProbability p r1 os = calculateInterceptionProbability p r2 os"
  unfolding calculateInterceptionProbability_def assms by (rule refl)

lemma evaluatePass_expectedValue_cong:
  assumes "x r1 = x r2" and "y r1 = y r2"
    and "evaluatePass p r1 gs surf = Inr e1" and "evaluatePass p r2 gs surf = Inr e2"
  shows "expectedValue e1 = expectedValue e2"
  using assms(3,4)
  unfolding evaluatePass_def Let_def bind_fault_Inr
    calculateTurnoverEPV_cong[OF assms(1,2)] calculateInterceptionProbability_cong[OF assms(1,2)]
    assms(1,2)
  by auto

lemma passOptionOf_epvAdded_cong:
  assumes "x r1 = x r2" and "y r1 = y r2"
    and "passOptionOf bc gs s c r1 = Inr a" and "passOptionOf bc gs s c r2 = Inr b"
  shows "epvAdded a = epvAdded b"
  using assms(3,4) evaluatePass_expectedValue_cong[OF assms(1,2)]
  unfolding passOptionOf_def bind_fault_Inr by auto

text \<open>
  Claim C2 as stated fails: two team-mates on the same spot get the same value added, so the
  list is not strictly descending.
\<close>

theorem findPassOptions_strict_counterexample:
  "\<exists>opts. findPassOptions (Some carrier) [forwardMate, twinMate] twinPossession = Inr opts
     \<and> \<not> sorted_wrt (\<lambda>a b. epvAdded b < epvAdded a) opts"
proof -
  from findPassOptions_sorted_evaluations[of "[forwardMate, twinMate]" twinPossession carrier]
  obtain cEPV s vs
    where m: "map (passOptionOf carrier twinPossession s cEPV) [forwardMate, twinMate] = map Inr vs"
      and f: "findPassOptions (Some carrier) [forwardMate, twinMate] twinPossession
               = Inr (sort_key (\<lambda>opt. - epvAdded opt) vs)"
    by blast
  from m obtain a b where vs: "vs = [a, b]"
    and a: "passOptionOf carrier twinPossession s cEPV forwardMate = Inr a"
    and b: "passOptionOf carrier twinPossession s cEPV twinMate = Inr b"
    by (cases vs; cases "tl vs") auto
  have "x forwardMate = x twinMate" and "y forwardMate = y twinMate"
    by (simp_all add: twinMate_def)
  then have eq: "epvAdded a = epvAdded b"
    using a b by (rule passOptionOf_epvAdded_cong)
  then have "sort_key (\<lambda>opt. - epvAdded opt) vs = [a, b]" by (simp add: vs)
  with f eq show ?thesis by simp
qed

section \<open>Direction of a pass\<close>

text \<open>The direction factor of a pass with along-axis displacement \<open>d\<close>.\<close>

lemma direction_factor_forward:
  fixes d :: real
  assumes "0 < d"
  shows "1 < (if d > 10 then 1.3 + min 0.2 (d / 50)
              else if d > 0 then 1.0 + d / 50
              else if d > - 10 then 1.0 + d / 30
              else max 0.3 (0.7 + d / 50))"
  using assms by (auto simp: min_def)

lemma direction_factor_backward:
  fixes d :: real
  assumes "d < 0"
  shows "(if d > 10 then 1.3 + min 0.2 (d / 50)
              else if d > 0 then 1.0 + d / 50
              else if d > - 10 then 1.0 + d / 30
              else max 0.3 (0.7 + d / 50)) < 1"
  using assms by (auto simp: max_def)

lemma evaluatePass_adjusted:
  assumes "evaluatePass passer rcv gs surf = Inr e"
  shows "receiverEPV e = rawReceiverEPV e *
     (let d = (if attackingRight gs then x rcv - x passer else - (x rcv - x passer))
      in if d > 10 then 1.3 + min 0.2 (d / 50)
         else if d > 0 then 1.0 + d / 50
         else if d > - 10 then 1.0 + d / 30
         else max 0.3 (0.7 + d / 50))"
  using assms unfolding evaluatePass_def Let_def bind_fault_Inr by auto

lemma evaluatePass_raw:
  assumes "evaluatePass passer rcv gs surf = Inr e"
  shows "(case surf of
            Some s \<Rightarrow> getEPVAt s (x rcv) (y rcv)
          | None \<Rightarrow> calculateEPV (x rcv) (y rcv) (gs\<lparr>ball := \<lparr>x = x rcv, y = y rcv\<rparr>\<rparr>) None)
         = Inr (rawReceiverEPV e)"
  using assms unfolding evaluatePass_def Let_def bind_fault_Inr by auto

text \<open>
  The adjusted value is the receiver's value times the direction factor. For two receivers of
  equal value, one ahead of the passer and one behind, the forward one is valued higher when
  the value is positive and lower when it is negative.
\<close>

lemma evaluatePass_forward_higher_when_positive:
  assumes "evaluatePass passer fwd gs surf = Inr ef"
    and "evaluatePass passer bwd gs surf = Inr eb"
    and "0 < (if attackingRight gs then x fwd - x passer else - (x fwd - x passer))"
    and "(if attackingRight gs then x bwd - x passer else - (x bwd - x passer)) < 0"
    and "rawReceiverEPV ef = rawReceiverEPV eb"
    and "0 < rawReceiverEPV ef"
  shows "receiverEPV eb < receiverEPV ef"
proof -
  let ?df = "if attackingRight gs then x fwd - x passer else - (x fwd - x passer)"
  let ?db = "if attackingRight gs then x bwd - x passer else - (x bwd - x passer)"
  let ?factor = "\<lambda>d::real. if d > 10 then 1.3 + min 0.2 (d / 50)
         else if d > 0 then 1.0 + d / 50
         else if d > - 10 then 1.0 + d / 30
         else max 0.3 (0.7 + d / 50)"
  have f: "receiverEPV ef = rawReceiverEPV ef * ?factor ?df"
    using evaluatePass_adjusted[OF assms(1)] by (simp only: Let_def)
  have b: "receiverEPV eb = rawReceiverEPV ef * ?factor ?db"
    using evaluatePass_adjusted[OF assms(2)] assms(5) by (simp only: Let_def)
  have "?factor ?db < 1" by (rule direction_factor_backward[OF assms(4)])
  also have "1 < ?factor ?df" by (rule direction_factor_forward[OF assms(3)])
  finally have "?factor ?db < ?factor ?df" .
  then have "rawReceiverEPV ef * ?factor ?db < rawReceiverEPV ef * ?factor ?df"
    using assms(6) by (rule mult_strict_left_mono)
  then show ?thesis unfolding f b .
qed

lemma evaluatePass_forward_lower_when_negative:
  assumes "evaluatePass passer fwd gs surf = Inr ef"
    and "evaluatePass passer bwd gs surf = Inr eb"
    and "0 < (if attackingRight gs then x fwd - x passer else - (x fwd - x passer))"
    and "(if attackingRight gs then x bwd - x passer else - (x bwd - x passer)) < 0"
    and "rawReceiverEPV ef = rawReceiverEPV eb"
    and "rawReceiverEPV ef < 0"
  shows "receiverEPV ef < receiverEPV eb"
proof -
  let ?df = "if attackingRight gs then x fwd - x passer else - (x fwd - x passer)"
  let ?db = "if attackingRight gs then x bwd - x passer else - (x bwd - x passer)"
  let ?factor = "\<lambda>d::real. if d > 10 then 1.3 + min 0.2 (d / 50)
         else if d > 0 then 1.0 + d / 50
         else if d > - 10 then 1.0 + d / 30
         else max 0.3 (0.7 + d / 50)"
  have f: "receiverEPV ef = rawReceiverEPV ef * ?factor ?df"
    using evaluatePass_adjusted[OF assms(1)] by (simp only: Let_def)
  have b: "receiverEPV eb = rawReceiverEPV ef * ?factor ?db"
    using evaluatePass_adjusted[OF assms(2)] assms(5) by (simp only: Let_def)
  have "?factor ?db < 1" by (rule direction_factor_backward[OF assms(4)])
  also have "1 < ?factor ?df" by (rule direction_factor_forward[OF assms(3)])
  finally have "?factor ?db < ?factor ?df" .
  then have "rawReceiverEPV ef * ?factor ?df < rawReceiverEPV ef * ?factor ?db"
    using assms(6) by (rule mult_strict_left_mono_neg)
  then show ?thesis unfolding f b .
qed

text \<open>A mover within half a metre of the target is there; any other needs the reaction
  time at least, and then weighs less than a quarter against a ball that is already there.\<close>

lemma timeToIntercept_there:
  assumes "(tx - x p) * (tx - x p) + (ty - y p) * (ty - y p) < 0.25"
  shows "timeToIntercept p tx ty = 0"
proof (rule timeToIntercept_near)
  have "(tx - x p) * (tx - x p) + (ty - y p) * (ty - y p) < (0.5::real)\<^sup>2"
    using assms by (simp add: power2_eq_square)
  then show "sqrt ((tx - x p) * (tx - x p) + (ty - y p) * (ty - y p)) < 0.5"
    by (intro real_less_lsqrt) simp_all
qed

lemma timeToIntercept_away:
  assumes "0.25 \<le> (tx - x p) * (tx - x p) + (ty - y p) * (ty - y p)"
  shows "0.7 \<le> timeToIntercept p tx ty"
proof -
  have "(0.5::real)\<^sup>2 \<le> (tx - x p) * (tx - x p) + (ty - y p) * (ty - y p)"
    using assms by (simp add: power2_eq_square)
  then have "0.5 \<le> sqrt ((tx - x p) * (tx - x p) + (ty - y p) * (ty - y p))"
    by (rule real_le_rsqrt)
  then have "\<not> sqrt ((tx - x p) * (tx - x p) + (ty - y p) * (ty - y p)) < 0.5" by simp
  then have "REACTION_TIME \<le> timeToIntercept p tx ty" by (rule timeToIntercept_far)
  then show ?thesis by (simp add: REACTION_TIME_def)
qed

lemma influence_there:
  assumes "timeToIntercept p tx ty = 0"
  shows "influenceStep 0 tx ty acc p = acc + 1 / 2"
  using assms by (simp add: influenceStep_def Let_def)

lemma influence_away:
  assumes "0.7 \<le> timeToIntercept p tx ty"
  shows "\<exists>i. 0 < i \<and> i < 1 / 4 \<and> influenceStep 0 tx ty acc p = acc + i"
proof -
  let ?t = "timeToIntercept p tx ty"
  have "1 + 4 * ?t \<le> exp (4 * ?t)" by (rule exp_ge_add_one_self)
  then have "3 < exp (4 * ?t)" using assms by linarith
  then have "1 / (1 + exp (4 * ?t)) < 1 / 4"
    by (simp add: field_simps)
  moreover have "0 < 1 / (1 + exp (4 * ?t))" by (simp add: add_pos_pos)
  moreover have "influenceStep 0 tx ty acc p = acc + 1 / (1 + exp (4 * ?t))"
    by (simp add: influenceStep_def Let_def)
  ultimately show ?thesis by blast
qed

text \<open>A cell of a generated value surface is the unclamped product at the cell's centre.\<close>

lemma generateEPVSurface_cell:
  assumes "generateEPVSurface gs options = Inr s"
    and "yi < nat (gridHeight s)" and "xi < nat (gridWidth s)"
  shows "grid s ! yi ! xi =
    progressionValue (cellCentre xi (resolution s) (pitchLength s))
        (cellCentre yi (resolution s) (pitchWidth s)) (attackingRight gs)
      * ((pitchControlAtPoint (cellCentre xi (resolution s) (pitchLength s))
            (cellCentre yi (resolution s) (pitchWidth s))
            (teamPlayers gs) (opponentPlayers gs) (ball gs) - 0.5) * 2)"
  using assms
  by (auto simp: generateEPVSurface_def generatePitchControlSurface_def Let_def bind_fault_Inr
      split: if_splits)

lemma control_under_pressure:
  "pitchControlAtPoint 0.5 1 [pressedCarrier, shortForward, shortBackward] [presserA, presserB]
     \<lparr>x = 0.5, y = 1\<rparr> < 1 / 2"
proof -
  have c: "timeToIntercept pressedCarrier 0.5 1 = 0"
    by (rule timeToIntercept_there) (simp add: pressedCarrier_def)
  have f: "0.7 \<le> timeToIntercept shortForward 0.5 1"
    by (rule timeToIntercept_away) (simp add: shortForward_def)
  have b: "0.7 \<le> timeToIntercept shortBackward 0.5 1"
    by (rule timeToIntercept_away) (simp add: shortBackward_def)
  have ma: "timeToIntercept presserA 0.5 1 = 0"
    by (rule timeToIntercept_there) (simp add: presserA_def)
  have mb: "timeToIntercept presserB 0.5 1 = 0"
    by (rule timeToIntercept_there) (simp add: presserB_def)
  obtain i where i: "0 < i" "i < 1 / 4"
      "influenceStep 0 0.5 1 (0 + 1 / 2) shortForward = 0 + 1 / 2 + i"
    using influence_away[OF f] by blast
  obtain j where j: "0 < j" "j < 1 / 4"
      "influenceStep 0 0.5 1 (0 + 1 / 2 + i) shortBackward = 0 + 1 / 2 + i + j"
    using influence_away[OF b] by blast
  have team: "foldl (influenceStep 0 0.5 1) 0 [pressedCarrier, shortForward, shortBackward]
                = 0 + 1 / 2 + i + j"
    unfolding foldl.simps influence_there[OF c] i(3) j(3) by (rule refl)
  have opp: "foldl (influenceStep 0 0.5 1) 0 [presserA, presserB] = 0 + 1 / 2 + 1 / 2"
    unfolding foldl.simps influence_there[OF ma] influence_there[OF mb] by (rule refl)
  have bt: "ballTravelTime \<lparr>x = 0.5, y = 1\<rparr> 0.5 1 = 0"
    by (simp add: ballTravelTime_def)
  have "(0 + 1 / 2 + i + j) / (0 + 1 / 2 + i + j + (0 + 1 / 2 + 1 / 2)) < 1 / 2"
    using i(1,2) j(1,2) by (simp add: field_simps)
  moreover have "0 + 1 / 2 + i + j + (0 + 1 / 2 + 1 / 2) \<noteq> 0" using i(1) j(1) by linarith
  ultimately show ?thesis
    unfolding pitchControlAtPoint_def Let_def bt team opp by simp
qed


lemma cellLookup_inside:
  assumes res: "resolution s \<noteq> 0"
    and rows: "length (grid s) = nat (gridHeight s)"
    and cols: "\<And>row. row \<in> set (grid s) \<Longrightarrow> length row = nat (gridWidth s)"
    and yi: "0 \<le> \<lfloor>(py + pitchWidth s / 2) / resolution s\<rfloor>"
            "\<lfloor>(py + pitchWidth s / 2) / resolution s\<rfloor> < gridHeight s"
    and xi: "0 \<le> \<lfloor>(px + pitchLength s / 2) / resolution s\<rfloor>"
            "\<lfloor>(px + pitchLength s / 2) / resolution s\<rfloor> < gridWidth s"
  shows "cellLookup s px py neutral =
    Inr (grid s ! nat \<lfloor>(py + pitchWidth s / 2) / resolution s\<rfloor>
                ! nat \<lfloor>(px + pitchLength s / 2) / resolution s\<rfloor>)"
proof -
  define a where "a = \<lfloor>(py + pitchWidth s / 2) / resolution s\<rfloor>"
  define b where "b = \<lfloor>(px + pitchLength s / 2) / resolution s\<rfloor>"
  have a: "0 \<le> a" "a < gridHeight s" unfolding a_def by (rule yi)+
  have b: "0 \<le> b" "b < gridWidth s" unfolding b_def by (rule xi)+
  have ya: "nat a < length (grid s)" using a rows by linarith
  then obtain row0 rest where g: "grid s = row0 # rest" by (cases "grid s") auto
  have r0: "length row0 = nat (gridWidth s)" using cols g by simp
  have "grid s ! nat a \<in> set (grid s)" using ya by simp
  then have ra: "length (grid s ! nat a) = nat (gridWidth s)" by (rule cols)
  have "\<not> (a < 0 \<or> int (length (grid s)) \<le> a \<or> b < 0)"
    using a b rows by linarith
  moreover have "\<not> int (length row0) \<le> b" using b r0 by linarith
  moreover have "nat b < length (grid s ! nat a)" using b ra by linarith
  ultimately show ?thesis
    using res g unfolding cellLookup_def Let_def a_def[symmetric] b_def[symmetric]
    by simp
qed

text \<open>
  Claim C3. The claim asks that of two receivers at the same distance from the carrier, all
  else equal, the one ahead is valued higher than the one behind. Evaluated on the pressed
  possession against the surface generated with the default options, as \<open>findPassOptions\<close>
  does: both receivers are 0.5 m from the carrier and fall into the same cell of the surface,
  so their values before the adjustment are equal; that value is negative, the opponents
  controlling the cell; the factors are 1.01 forward and 59/60 backward; and the adjusted
  value of the forward receiver is strictly lower than that of the backward receiver.
\<close>

theorem evaluatePass_direction_sign_defect:
  "\<exists>s ef eb. generateEPVSurface pressedPossession default_options = Inr s
     \<and> evaluatePass pressedCarrier shortForward pressedPossession (Some s) = Inr ef
     \<and> evaluatePass pressedCarrier shortBackward pressedPossession (Some s) = Inr eb
     \<and> sqrt ((x shortForward - x pressedCarrier)\<^sup>2 + (y shortForward - y pressedCarrier)\<^sup>2)
         = sqrt ((x shortBackward - x pressedCarrier)\<^sup>2 + (y shortBackward - y pressedCarrier)\<^sup>2)
     \<and> attackingRight pressedPossession
     \<and> 0 < x shortForward - x pressedCarrier
     \<and> x shortBackward - x pressedCarrier < 0
     \<and> rawReceiverEPV ef = rawReceiverEPV eb
     \<and> rawReceiverEPV ef < 0
     \<and> directionFactor ef = 1.01
     \<and> directionFactor eb = 59 / 60
     \<and> receiverEPV ef < receiverEPV eb"
proof -
  have xf: "x shortForward = 1" "y shortForward = 1" by (simp_all add: shortForward_def)
  have xb: "x shortBackward = 0" "y shortBackward = 1" by (simp_all add: shortBackward_def)
  have xc: "x pressedCarrier = 0.5" "y pressedCarrier = 1" by (simp_all add: pressedCarrier_def)
  have ar: "attackingRight pressedPossession" by (simp add: pressedPossession_def)
  obtain s where s: "generateEPVSurface pressedPossession default_options = Inr s"
    using generateEPVSurface_default by blast
  note fld = generateEPVSurface_fields[OF s, unfolded default_options_def, simplified]
  note shp = generateEPVSurface_shape[OF s]
  have lf: "getEPVAt s 1 1 = Inr (grid s ! 17 ! 26)"
    unfolding getEPVAt_def
    using cellLookup_inside[OF shp, of 1 1 0] by (simp add: fld)
  have lb: "getEPVAt s 0 1 = Inr (grid s ! 17 ! 26)"
    unfolding getEPVAt_def
    using cellLookup_inside[OF shp, of 1 0 0] by (simp add: fld)
  have cell: "grid s ! 17 ! 26 =
      progressionValue 0.5 1 True
        * ((pitchControlAtPoint 0.5 1 [pressedCarrier, shortForward, shortBackward]
              [presserA, presserB] \<lparr>x = 0.5, y = 1\<rparr> - 0.5) * 2)"
    using generateEPVSurface_cell[OF s, of 17 26]
    by (simp add: fld cellCentre_def pressedPossession_def)
  have "0 < progressionValue 0.5 1 True"
    by (simp add: progressionValue_def Let_def)
  then have neg: "grid s ! 17 ! 26 < 0"
    unfolding cell using control_under_pressure by (simp add: mult_pos_neg)
  have "\<exists>e. evaluatePass pressedCarrier shortForward pressedPossession (Some s) = Inr e"
    by (rule evaluatePass_total) (simp only: option.case xf lf, blast)
  then obtain ef
    where ef: "evaluatePass pressedCarrier shortForward pressedPossession (Some s) = Inr ef"
    by blast
  have "\<exists>e. evaluatePass pressedCarrier shortBackward pressedPossession (Some s) = Inr e"
    by (rule evaluatePass_total) (simp only: option.case xb lb, blast)
  then obtain eb
    where eb: "evaluatePass pressedCarrier shortBackward pressedPossession (Some s) = Inr eb"
    by blast
  have rf: "rawReceiverEPV ef = grid s ! 17 ! 26"
    using evaluatePass_raw[OF ef] lf by (simp add: xf)
  have rb: "rawReceiverEPV eb = grid s ! 17 ! 26"
    using evaluatePass_raw[OF eb] lb by (simp add: xb)
  have df: "directionFactor ef = 1.01"
    using ef unfolding evaluatePass_def Let_def bind_fault_Inr by (auto simp: xf xc ar)
  have db: "directionFactor eb = 59 / 60"
    using eb unfolding evaluatePass_def Let_def bind_fault_Inr by (auto simp: xb xc ar)
  have lower: "receiverEPV ef < receiverEPV eb"
    by (rule evaluatePass_forward_lower_when_negative[OF ef eb])
       (simp_all add: xf xb xc ar rf rb neg)
  have dist: "sqrt ((x shortForward - x pressedCarrier)\<^sup>2 + (y shortForward - y pressedCarrier)\<^sup>2)
         = sqrt ((x shortBackward - x pressedCarrier)\<^sup>2 + (y shortBackward - y pressedCarrier)\<^sup>2)"
    by (simp add: xf xb xc)
  show ?thesis
    using s ef eb dist ar rf rb neg df db lower by (auto simp: xf xb xc)
qed


section \<open>Action likelihood\<close>

lemma shotProbability_pos: "0 < shotProbability bc gs"
proof -
  have "(0::real) < min 0.9 (max 0.01 v)" for v by simp
  then show ?thesis unfolding shotProbability_def Let_def by blast
qed

lemma driveProbability_pos: "0 < driveProbability bc gs"
proof -
  have "(0::real) < min 0.8 (max 0.1 v)" for v by simp
  then show ?thesis unfolding driveProbability_def Let_def by blast
qed

lemma normalised_sum:
  fixes a b c :: real
  assumes "0 < a" and "0 < b" and "0 < c"
  shows "c / (a + b + c) + b / (a + b + c) + a / (a + b + c) = 1"
proof -
  have "a + b + c \<noteq> 0" using assms by linarith
  then show ?thesis by (simp add: add_divide_distrib[symmetric] add.commute add.left_commute)
qed

text \<open>
  Claim C8. The three probabilities returned by \<open>getActionProbabilities\<close> add up to 1, with
  and without a carrier.
\<close>

theorem getActionProbabilities_sum:
  "pass (getActionProbabilities ballCarrier gs)
   + drive (getActionProbabilities ballCarrier gs)
   + shot (getActionProbabilities ballCarrier gs) = 1"
proof (cases ballCarrier)
  case None
  then show ?thesis by (simp add: getActionProbabilities_def)
next
  case (Some bc)
  have p: "(0::real) < max 0.15 (1 - shotProbability bc gs - driveProbability bc gs)" by simp
  show ?thesis
    using normalised_sum[OF shotProbability_pos[of bc gs] driveProbability_pos[of bc gs] p]
    by (simp add: getActionProbabilities_def Let_def Some)
qed

section \<open>The formation line detector\<close>

lemma kMeans_sample: "kMeans1D [10, 0, - 10] 3 50 = [- 10, 0, 10]"
  by code_simp

lemma kMeans_single: "kMeans1D [- 10] 3 50 = [- 10]"
  by (simp add: kMeans1D_def)

text \<open>
  Claim C1. The claim asks for \<open>firstLine \<le> secondLine \<le> thirdLine\<close> along the attack axis
  for both directions. Evaluated for three defenders at \<open>x = -10, 0, 10\<close> and an attack
  towards negative \<open>x\<close>: the lines come out as \<open>-10, 0, 10\<close>, which along the attack axis
  (sign flipped) read \<open>10, 0, -10\<close>, in decreasing order. The same result assigns the
  defender at \<open>x = -10\<close> to line 3 although \<open>firstLine\<close> is his line, and the zone of the
  point \<open>x = -5\<close>, which lies between the second and the third line, is reported as
  \<open>Z1\<close>. With a single defender the second line is \<open>undefined\<close>.
\<close>

theorem detectDefensiveLines_attacking_left:
  "firstLine (detectDefensiveLines backThree False) = Some (- 10)
   \<and> secondLine (detectDefensiveLines backThree False) = Some 0
   \<and> thirdLine (detectDefensiveLines backThree False) = Some 10
   \<and> assignments (detectDefensiveLines backThree False) 1 = Some 3
   \<and> getRelativeZone (- 5) 0 (detectDefensiveLines backThree False) False = ''Z1''
   \<and> secondLine (detectDefensiveLines [hd backThree] True) = None"
  by (simp add: backThree_def detectDefensiveLines_def Let_def kMeans_sample kMeans_single
      at_index_def getRelativeZone_def beforeLine_def below_def)

end
